theory Spec2Isabelle
  imports Main "HOL-Library.Word"
begin

unbundle bit_operations_syntax

section \<open>Data model\<close>

text \<open>
  The package wraps \<^verbatim>\<open>github.com/google/uuid\<close>. A raw identifier is the library's
  \<^verbatim>\<open>uuid.UUID\<close>, an array of sixteen bytes compared with \<^verbatim>\<open>==\<close>; it is
  read here as one 128-bit word, first byte most significant, so that equality is
  equality of arrays and \<^verbatim>\<open>uuid.Nil\<close> is the word \<open>0\<close>.
\<close>

type_synonym raw = "128 word"

definition uuid_Nil :: raw where
  "uuid_Nil = 0"

text \<open>
  \<^verbatim>\<open>type ValidatedUUID struct { uuid.UUID }\<close>. The composite literal
  \<^verbatim>\<open>ValidatedUUID{}\<close> is the zero value of the struct.
\<close>

record ValidatedUUID =
  UUID :: raw

definition ValidatedUUID_zero :: ValidatedUUID where
  "ValidatedUUID_zero = \<lparr>UUID = uuid_Nil\<rparr>"

text \<open>
  Modelled from the spec: the structured interchange message \<^verbatim>\<open>UUID\<close> (generated
  protobuf code, not among the sources): a record with one string field \<^verbatim>\<open>Val\<close>,
  handled through a reference that may be absent, and the accessor \<^verbatim>\<open>GetVal\<close>.
\<close>

record UUID_pb =
  Val :: string

definition GetVal :: "UUID_pb option \<Rightarrow> string" where
  "GetVal pb = (case pb of None \<Rightarrow> [] | Some m \<Rightarrow> Val m)"

text \<open>\<^verbatim>\<open>wrapperspb.StringValue\<close>: one string field, built by \<^verbatim>\<open>wrapperspb.String\<close>.\<close>

record StringValue =
  Value_sv :: string

definition wrapperspb_String :: "string \<Rightarrow> StringValue option" where
  "wrapperspb_String v = Some \<lparr>Value_sv = v\<rparr>"

text \<open>
  A value of type \<^verbatim>\<open>interface{}\<close> as the database driver hands it over: the nil
  interface, a \<^verbatim>\<open>string\<close>, a \<^verbatim>\<open>[]byte\<close>, or a value of some other dynamic type,
  of which only the type's name (what \<^verbatim>\<open>%T\<close> prints) is kept.
\<close>

datatype driver_value = VNil | VString string | VBytes string | VOther string

text \<open>What \<^verbatim>\<open>%T\<close> prints for such a value.\<close>

fun dynamic_type :: "driver_value \<Rightarrow> string" where
  "dynamic_type VNil = ''<nil>''"
| "dynamic_type (VString x) = ''string''"
| "dynamic_type (VBytes b) = ''[]uint8''"
| "dynamic_type (VOther t) = t"

subsection \<open>Errors\<close>

text \<open>
  Every error of the package is built by \<^verbatim>\<open>fmt.Errorf\<close>; the constructors stand for
  the messages

  \<^item> \<open>EmptyInput\<close>: "UUID cannot be empty"
  \<^item> \<open>MalformedText e\<close>: "invalid UUID format: %w", wrapping the library's error \<open>e\<close>
  \<^item> \<open>ZeroValue\<close>: "UUID cannot be nil/zero value"
  \<^item> \<open>NilMessage\<close>: "protobuf UUID cannot be nil"
  \<^item> \<open>NilStringValue\<close>: "StringValue cannot be nil"
  \<^item> \<open>NilColumn\<close>: "UUID cannot be nil"
  \<^item> \<open>UnsupportedColumnType t\<close>: "cannot scan %T into UUID"
  \<^item> \<open>During c e\<close>: "UUID validation failed ...: %w", wrapping \<open>e\<close>; \<open>c\<close> is the
    conversion named in the message
  \<^item> \<open>Notation e\<close>: an error of \<^verbatim>\<open>encoding/json\<close>, handed on as it is.
\<close>

type_synonym perror = string

datatype jerror = SyntaxError | UnmarshalTypeError string

datatype conversion =
  JSONMarshalling | JSONUnmarshalling | DatabaseWrite | DatabaseScan
  | ProtobufMarshalling | StringValueConversion

datatype error =
    EmptyInput
  | MalformedText perror
  | ZeroValue
  | NilMessage
  | NilStringValue
  | NilColumn
  | UnsupportedColumnType string
  | During conversion error
  | Notation jerror

text \<open>The innermost error of a chain of \<^verbatim>\<open>%w\<close> wrappers added by the conversions.\<close>

fun cause :: "error \<Rightarrow> error" where
  "cause (During c e) = cause e"
| "cause e = e"

text \<open>A function that may panic either returns or panics with the error.\<close>

datatype 'a outcome = Returns 'a | Panics error

subsection \<open>The collaborators\<close>

text \<open>
  The library functions \<^verbatim>\<open>uuid.Parse\<close> and \<^verbatim>\<open>UUID.String\<close> are parameters of the
  model. \<^verbatim>\<open>uuid.Parse\<close> returns a pair, and the array it returns beside an error is
  whatever the library left in it.
\<close>

record primitive =
  uuid_Parse :: "string \<Rightarrow> raw \<times> perror option"
  uuid_String :: "raw \<Rightarrow> string"

text \<open>
  \<^verbatim>\<open>encoding/json\<close>, as far as the package uses it. A JSON text is first checked and
  read as one value (\<open>json_scan\<close>; \<open>None\<close> for a text that is not well-formed JSON),
  and a string is written as a quoted scalar (\<open>json_quote\<close>). Of arrays and objects only
  the kind is kept.
\<close>

datatype json = JNull | JBool bool | JNumber string | JString string | JArray | JObject

record json_codec =
  json_scan :: "string \<Rightarrow> json option"
  json_quote :: "string \<Rightarrow> string"

fun json_kind :: "json \<Rightarrow> string" where
  "json_kind JNull = ''null''"
| "json_kind (JBool b) = ''bool''"
| "json_kind (JNumber n) = ''number''"
| "json_kind (JString s) = ''string''"
| "json_kind JArray = ''array''"
| "json_kind JObject = ''object''"

text \<open>\<^verbatim>\<open>json.Marshal\<close> of a Go string: there is no failure path.\<close>

definition json_Marshal :: "json_codec \<Rightarrow> string \<Rightarrow> string option \<times> error option" where
  "json_Marshal n s = (Some (json_quote n s), None)"

text \<open>
  \<^verbatim>\<open>json.Unmarshal(data, &s)\<close> for a string variable holding \<open>s\<close>: the new content
  of the variable and the error. A syntax error and a value of another kind leave the
  variable alone and fail; a string scalar is stored; and, as the documentation of
  \<^verbatim>\<open>encoding/json\<close> puts it, unmarshalling the JSON null into a Go type that is
  not an interface, map, pointer or slice "has no effect on the value and produces no
  error".
\<close>

definition json_Unmarshal :: "json_codec \<Rightarrow> string \<Rightarrow> string \<Rightarrow> string \<times> error option" where
  "json_Unmarshal n data s =
     (case json_scan n data of
        None \<Rightarrow> (s, Some (Notation SyntaxError))
      | Some JNull \<Rightarrow> (s, None)
      | Some (JString t) \<Rightarrow> (t, None)
      | Some v \<Rightarrow> (s, Some (Notation (UnmarshalTypeError (json_kind v)))))"

section \<open>validated_uuid.go\<close>

text \<open>
  A Go function returning \<^verbatim>\<open>(T, error)\<close> returns a pair here, with \<open>None\<close> for the
  \<^verbatim>\<open>nil\<close> error, so that the value returned beside an error is part of the result.

  \<^verbatim>\<open>New\<close> wraps what \<^verbatim>\<open>uuid.New()\<close> returns. The generator is a parameter: it
  draws from a source \<open>g\<close> and returns the identifier and the source after the draw.
\<close>

definition New :: "('g \<Rightarrow> raw \<times> 'g) \<Rightarrow> 'g \<Rightarrow> ValidatedUUID \<times> 'g" where
  "New uuid_New g = (case uuid_New g of (r, g') \<Rightarrow> (\<lparr>UUID = r\<rparr>, g'))"

definition Parse :: "primitive \<Rightarrow> string \<Rightarrow> ValidatedUUID \<times> error option" where
  "Parse p s =
     (if s = [] then (ValidatedUUID_zero, Some EmptyInput)
      else case uuid_Parse p s of
        (parsed, Some err) \<Rightarrow> (ValidatedUUID_zero, Some (MalformedText err))
      | (parsed, None) \<Rightarrow>
          if parsed = uuid_Nil then (ValidatedUUID_zero, Some ZeroValue)
          else (\<lparr>UUID = parsed\<rparr>, None))"

definition MustParse :: "primitive \<Rightarrow> string \<Rightarrow> ValidatedUUID outcome" where
  "MustParse p s =
     (case Parse p s of (u, Some err) \<Rightarrow> Panics err | (u, None) \<Rightarrow> Returns u)"

definition FromGoogleUUID :: "raw \<Rightarrow> ValidatedUUID \<times> error option" where
  "FromGoogleUUID u =
     (if u = uuid_Nil then (ValidatedUUID_zero, Some ZeroValue)
      else (\<lparr>UUID = u\<rparr>, None))"

definition MustFromGoogleUUID :: "raw \<Rightarrow> ValidatedUUID outcome" where
  "MustFromGoogleUUID u =
     (case FromGoogleUUID u of (r, Some err) \<Rightarrow> Panics err | (r, None) \<Rightarrow> Returns r)"

definition IsZero :: "ValidatedUUID \<Rightarrow> bool" where
  "IsZero u = (UUID u = uuid_Nil)"

definition Validate :: "ValidatedUUID \<Rightarrow> error option" where
  "Validate u = (if UUID u = uuid_Nil then Some ZeroValue else None)"

definition String :: "primitive \<Rightarrow> ValidatedUUID \<Rightarrow> string" where
  "String p u = uuid_String p (UUID u)"

definition MarshalJSON ::
  "json_codec \<Rightarrow> primitive \<Rightarrow> ValidatedUUID \<Rightarrow> string option \<times> error option" where
  "MarshalJSON n p u =
     (case Validate u of
        Some err \<Rightarrow> (None, Some (During JSONMarshalling err))
      | None \<Rightarrow> json_Marshal n (uuid_String p (UUID u)))"

text \<open>
  The two decoders have a pointer receiver: they take the content of the destination
  and return its content after the call, beside the error.
\<close>

definition UnmarshalJSON ::
  "json_codec \<Rightarrow> primitive \<Rightarrow> ValidatedUUID \<Rightarrow> string \<Rightarrow> ValidatedUUID \<times> error option" where
  "UnmarshalJSON n p u data =
     (case json_Unmarshal n data [] of
        (s, Some err) \<Rightarrow> (u, Some err)
      | (s, None) \<Rightarrow>
          (case Parse p s of
             (parsed, Some err) \<Rightarrow> (u, Some (During JSONUnmarshalling err))
           | (parsed, None) \<Rightarrow> (parsed, None)))"

definition Value :: "primitive \<Rightarrow> ValidatedUUID \<Rightarrow> driver_value \<times> error option" where
  "Value p u =
     (case Validate u of
        Some err \<Rightarrow> (VNil, Some (During DatabaseWrite err))
      | None \<Rightarrow> (VString (uuid_String p (UUID u)), None))"

definition Scan ::
  "primitive \<Rightarrow> ValidatedUUID \<Rightarrow> driver_value \<Rightarrow> ValidatedUUID \<times> error option" where
  "Scan p u v =
     (if v = VNil then (u, Some NilColumn)
      else case (case v of VString x \<Rightarrow> Some x | VBytes b \<Rightarrow> Some b | _ \<Rightarrow> None) of
        None \<Rightarrow> (u, Some (UnsupportedColumnType (dynamic_type v)))
      | Some s \<Rightarrow>
          (case Parse p s of
             (parsed, Some err) \<Rightarrow> (u, Some (During DatabaseScan err))
           | (parsed, None) \<Rightarrow> (parsed, None)))"

definition ToProto :: "primitive \<Rightarrow> ValidatedUUID \<Rightarrow> UUID_pb option \<times> error option" where
  "ToProto p u =
     (case Validate u of
        Some err \<Rightarrow> (None, Some (During ProtobufMarshalling err))
      | None \<Rightarrow> (Some \<lparr>Val = String p u\<rparr>, None))"

definition MustToProto :: "primitive \<Rightarrow> ValidatedUUID \<Rightarrow> UUID_pb option outcome" where
  "MustToProto p u =
     (case ToProto p u of (pb, Some err) \<Rightarrow> Panics err | (pb, None) \<Rightarrow> Returns pb)"

definition FromProto :: "primitive \<Rightarrow> UUID_pb option \<Rightarrow> ValidatedUUID \<times> error option" where
  "FromProto p pb =
     (if pb = None then (ValidatedUUID_zero, Some NilMessage)
      else Parse p (GetVal pb))"

definition MustFromProto :: "primitive \<Rightarrow> UUID_pb option \<Rightarrow> ValidatedUUID outcome" where
  "MustFromProto p pb =
     (case FromProto p pb of (u, Some err) \<Rightarrow> Panics err | (u, None) \<Rightarrow> Returns u)"

definition ToStringValue ::
  "primitive \<Rightarrow> ValidatedUUID \<Rightarrow> StringValue option \<times> error option" where
  "ToStringValue p u =
     (case Validate u of
        Some err \<Rightarrow> (None, Some (During StringValueConversion err))
      | None \<Rightarrow> (wrapperspb_String (String p u), None))"

definition FromStringValue ::
  "primitive \<Rightarrow> StringValue option \<Rightarrow> ValidatedUUID \<times> error option" where
  "FromStringValue p sv =
     (case sv of
        None \<Rightarrow> (ValidatedUUID_zero, Some NilStringValue)
      | Some m \<Rightarrow> Parse p (Value_sv m))"

section \<open>helpers.go\<close>

text \<open>
  The helpers are run against the messages the caller holds. These live in a store, one
  message at each address, and a \<^verbatim>\<open>*UUID\<close> passed in is \<^verbatim>\<open>nil\<close> or the address
  of one of them. Each helper returns, beside its results, the store as it is after the
  call; a message a helper returns is a new one and is returned by its content.
\<close>

type_synonym heap = "nat \<Rightarrow> UUID_pb"

type_synonym ref = "nat option"

definition deref :: "heap \<Rightarrow> ref \<Rightarrow> UUID_pb option" where
  "deref h pb = (case pb of None \<Rightarrow> None | Some a \<Rightarrow> Some (h a))"

definition StringToProto ::
  "primitive \<Rightarrow> heap \<Rightarrow> string \<Rightarrow> (UUID_pb option \<times> error option) \<times> heap" where
  "StringToProto p h s =
     (case Parse p s of
        (validated, Some err) \<Rightarrow> ((None, Some err), h)
      | (validated, None) \<Rightarrow> (ToProto p validated, h))"

definition MustStringToProto ::
  "primitive \<Rightarrow> heap \<Rightarrow> string \<Rightarrow> UUID_pb option outcome \<times> heap" where
  "MustStringToProto p h s =
     (case StringToProto p h s of
        ((pb, Some err), h') \<Rightarrow> (Panics err, h')
      | ((pb, None), h') \<Rightarrow> (Returns pb, h'))"

definition ProtoToString ::
  "primitive \<Rightarrow> heap \<Rightarrow> ref \<Rightarrow> (string \<times> error option) \<times> heap" where
  "ProtoToString p h pb =
     (case FromProto p (deref h pb) of
        (validated, Some err) \<Rightarrow> (([], Some err), h)
      | (validated, None) \<Rightarrow> ((String p validated, None), h))"

definition MustProtoToString ::
  "primitive \<Rightarrow> heap \<Rightarrow> ref \<Rightarrow> string outcome \<times> heap" where
  "MustProtoToString p h pb =
     (case ProtoToString p h pb of
        ((s, Some err), h') \<Rightarrow> (Panics err, h')
      | ((s, None), h') \<Rightarrow> (Returns s, h'))"

definition ValidateProtoUUID :: "primitive \<Rightarrow> heap \<Rightarrow> ref \<Rightarrow> error option \<times> heap" where
  "ValidateProtoUUID p h pb =
     (if pb = None then (Some NilMessage, h)
      else (snd (Parse p (GetVal (deref h pb))), h))"

definition ValidateStringUUID :: "primitive \<Rightarrow> heap \<Rightarrow> string \<Rightarrow> error option \<times> heap" where
  "ValidateStringUUID p h s = (snd (Parse p s), h)"

section \<open>Reference collaborators\<close>

text \<open>
  Modelled from the spec: the raw-UUID primitive (\<^verbatim>\<open>github.com/google/uuid\<close>, not among
  the sources), for the canonical spelling only: \<open>canonical_format\<close> writes the
  "canonical 36-character hyphenated hexadecimal form, lowercase", and
  \<open>canonical_parse\<close> reads a text of 36 characters with hyphens at offsets 8, 13, 18
  and 23 and hexadecimal digits elsewhere. Every other text is turned down here (the
  library reads a few more spellings). The theorems below hold for any primitive; this
  one supplies concrete inputs.
\<close>

definition xval :: "char \<Rightarrow> nat option" where
  "xval c =
     (let n = (of_char c :: nat) in
      if 48 \<le> n \<and> n \<le> 57 then Some (n - 48)
      else if 97 \<le> n \<and> n \<le> 102 then Some (n - 87)
      else if 65 \<le> n \<and> n \<le> 70 then Some (n - 55)
      else None)"

fun xvals :: "string \<Rightarrow> nat list option" where
  "xvals [] = Some []"
| "xvals (c # cs) =
     (case xval c of
        None \<Rightarrow> None
      | Some d \<Rightarrow> (case xvals cs of None \<Rightarrow> None | Some ds \<Rightarrow> Some (d # ds)))"

definition hex_value :: "nat list \<Rightarrow> raw" where
  "hex_value ds = foldl (\<lambda>a d. 16 * a + of_nat d) 0 ds"

definition canonical_parse :: "string \<Rightarrow> raw \<times> perror option" where
  "canonical_parse s =
     (if length s \<noteq> 36 then (0, Some ''invalid UUID length'')
      else if s ! 8 \<noteq> CHR ''-'' \<or> s ! 13 \<noteq> CHR ''-'' \<or> s ! 18 \<noteq> CHR ''-''
              \<or> s ! 23 \<noteq> CHR ''-''
      then (0, Some ''invalid UUID format'')
      else case xvals (take 8 s @ take 4 (drop 9 s) @ take 4 (drop 14 s)
                         @ take 4 (drop 19 s) @ drop 24 s) of
             None \<Rightarrow> (0, Some ''invalid UUID format'')
           | Some ds \<Rightarrow> (hex_value ds, None))"

definition xdigit :: "nat \<Rightarrow> char" where
  "xdigit d = (if d < 10 then char_of (48 + d) else char_of (87 + d))"

definition nibble :: "raw \<Rightarrow> nat \<Rightarrow> nat" where
  "nibble r i = unat (drop_bit (4 * (31 - i)) r AND 15)"

definition canonical_format :: "raw \<Rightarrow> string" where
  "canonical_format r =
     (let h = map (\<lambda>i. xdigit (nibble r i)) [0..<32] in
      take 8 h @ ''-'' @ take 4 (drop 8 h) @ ''-'' @ take 4 (drop 12 h) @ ''-''
        @ take 4 (drop 16 h) @ ''-'' @ drop 20 h)"

definition canonical :: primitive where
  "canonical = \<lparr>uuid_Parse = canonical_parse, uuid_String = canonical_format\<rparr>"

text \<open>
  The canonical spelling as a property of the text alone: 36 characters, hyphens at
  offsets 8, 13, 18 and 23, and digits \<^verbatim>\<open>0-9\<close>, \<^verbatim>\<open>a-f\<close> elsewhere.
\<close>

definition lower_hex :: "char \<Rightarrow> bool" where
  "lower_hex c =
     (let n = (of_char c :: nat) in (48 \<le> n \<and> n \<le> 57) \<or> (97 \<le> n \<and> n \<le> 102))"

definition canonical_text :: "string \<Rightarrow> bool" where
  "canonical_text t =
     (length t = 36 \<and> t ! 8 = CHR ''-'' \<and> t ! 13 = CHR ''-'' \<and> t ! 18 = CHR ''-''
      \<and> t ! 23 = CHR ''-''
      \<and> list_all lower_hex (take 8 t @ take 4 (drop 9 t) @ take 4 (drop 14 t)
                               @ take 4 (drop 19 t) @ drop 24 t))"

text \<open>The value of a row of hexadecimal digits as a natural number.\<close>

definition hv :: "nat list \<Rightarrow> nat" where
  "hv ds = foldl (\<lambda>a d. 16 * a + d) 0 ds"

text \<open>
  Modelled from the spec: the external generator, which "never returns the zero
  value". This one takes its sixteen bytes from a counter and, as a version 4
  identifier has them, forces the high nibble of byte 6 to 4 and the two high bits of
  byte 8 to 10.
\<close>

definition counter_New :: "raw \<Rightarrow> raw \<times> raw" where
  "counter_New g =
     (((g AND NOT 0xF000C000000000000000) OR 0x40008000000000000000), g + 1)"

text \<open>
  A JSON reader and writer for plain scalars: the literals \<^verbatim>\<open>null\<close>, \<^verbatim>\<open>true\<close>
  and \<^verbatim>\<open>false\<close>, unsigned integers, and quoted strings of letters, digits and
  hyphens. On these it says what \<^verbatim>\<open>encoding/json\<close> says; texts outside this
  range are not used below.
\<close>

definition plain :: "char \<Rightarrow> bool" where
  "plain c =
     (let n = (of_char c :: nat) in
      (48 \<le> n \<and> n \<le> 57) \<or> (65 \<le> n \<and> n \<le> 90) \<or> (97 \<le> n \<and> n \<le> 122) \<or> n = 45)"

definition digit :: "char \<Rightarrow> bool" where
  "digit c = (let n = (of_char c :: nat) in 48 \<le> n \<and> n \<le> 57)"

definition scalar_scan :: "string \<Rightarrow> json option" where
  "scalar_scan d =
     (if d = ''null'' then Some JNull
      else if d = ''true'' then Some (JBool True)
      else if d = ''false'' then Some (JBool False)
      else if d \<noteq> [] \<and> list_all digit d \<and> (d = ''0'' \<or> hd d \<noteq> CHR ''0'')
      then Some (JNumber d)
      else if 2 \<le> length d \<and> hd d = CHR 0x22 \<and> last d = CHR 0x22
                \<and> list_all plain (butlast (tl d))
      then Some (JString (butlast (tl d)))
      else None)"

definition scalar_quote :: "string \<Rightarrow> string" where
  "scalar_quote s = CHR 0x22 # s @ [CHR 0x22]"

definition scalars :: json_codec where
  "scalars = \<lparr>json_scan = scalar_scan, json_quote = scalar_quote\<rparr>"

section \<open>Facts about \<open>Parse\<close> shared by the claims\<close>

lemma Parse_empty: "Parse p [] = (ValidatedUUID_zero, Some EmptyInput)"
  by (simp add: Parse_def)

lemma Parse_rejected:
  "s \<noteq> [] \<Longrightarrow> snd (uuid_Parse p s) = Some e \<Longrightarrow>
   Parse p s = (ValidatedUUID_zero, Some (MalformedText e))"
  by (cases "uuid_Parse p s") (simp add: Parse_def)

lemma Parse_zero:
  "s \<noteq> [] \<Longrightarrow> uuid_Parse p s = (uuid_Nil, None) \<Longrightarrow>
   Parse p s = (ValidatedUUID_zero, Some ZeroValue)"
  by (simp add: Parse_def)

lemma Parse_accepted:
  "s \<noteq> [] \<Longrightarrow> uuid_Parse p s = (r, None) \<Longrightarrow> r \<noteq> uuid_Nil \<Longrightarrow>
   Parse p s = (\<lparr>UUID = r\<rparr>, None)"
  by (simp add: Parse_def)

lemma Parse_success_iff:
  "(snd (Parse p s) = None) =
   (s \<noteq> [] \<and> snd (uuid_Parse p s) = None \<and> fst (uuid_Parse p s) \<noteq> uuid_Nil)"
  by (cases "uuid_Parse p s") (auto simp: Parse_def split: option.splits)

lemma Parse_success_value:
  "snd (Parse p s) = None \<Longrightarrow> fst (Parse p s) = \<lparr>UUID = fst (uuid_Parse p s)\<rparr>"
  by (cases "uuid_Parse p s") (auto simp: Parse_def split: option.splits if_splits)

lemma Parse_success_nonzero:
  "snd (Parse p s) = None \<Longrightarrow> UUID (fst (Parse p s)) \<noteq> uuid_Nil"
  by (cases "uuid_Parse p s") (auto simp: Parse_def split: option.splits if_splits)

lemma Parse_failure_zero:
  "snd (Parse p s) \<noteq> None \<Longrightarrow> fst (Parse p s) = ValidatedUUID_zero"
  by (cases "uuid_Parse p s") (auto simp: Parse_def split: option.splits if_splits)

lemma Parse_failure_kinds:
  "snd (Parse p s) = None
   \<or> (s = [] \<and> snd (Parse p s) = Some EmptyInput)
   \<or> (s \<noteq> [] \<and> (\<exists>e. snd (uuid_Parse p s) = Some e
          \<and> snd (Parse p s) = Some (MalformedText e)))
   \<or> (s \<noteq> [] \<and> uuid_Parse p s = (uuid_Nil, None) \<and> snd (Parse p s) = Some ZeroValue)"
  by (cases "uuid_Parse p s") (auto simp: Parse_def split: option.splits if_splits)

lemma IsZero_zero: "IsZero ValidatedUUID_zero"
  by (simp add: IsZero_def ValidatedUUID_zero_def)

lemma Validate_IsZero: "(Validate u = None) = (\<not> IsZero u)"
  by (simp add: Validate_def IsZero_def)

lemma Validate_zero: "(Validate u = Some ZeroValue) = (UUID u = uuid_Nil)"
  by (simp add: Validate_def)

lemma FromProto_Some: "FromProto p (Some m) = Parse p (Val m)"
  by (simp add: FromProto_def GetVal_def)

lemma FromStringValue_Some: "FromStringValue p (Some m) = Parse p (Value_sv m)"
  by (simp add: FromStringValue_def)

lemma Parse_returns_nonzero: "Parse p s = (u, None) \<Longrightarrow> UUID u \<noteq> uuid_Nil"
  using Parse_success_nonzero [of p s] by simp

lemma UnmarshalJSON_success:
  "snd (UnmarshalJSON n p d data) = None \<Longrightarrow>
   UUID (fst (UnmarshalJSON n p d data)) \<noteq> uuid_Nil"
  unfolding UnmarshalJSON_def
  by (cases "json_Unmarshal n data []"; cases "snd (json_Unmarshal n data [])";
      cases "Parse p (fst (json_Unmarshal n data []))";
      cases "snd (Parse p (fst (json_Unmarshal n data [])))")
     (auto dest: Parse_returns_nonzero)

lemma UnmarshalJSON_failure:
  "snd (UnmarshalJSON n p d data) \<noteq> None \<Longrightarrow> fst (UnmarshalJSON n p d data) = d"
  unfolding UnmarshalJSON_def
  by (cases "json_Unmarshal n data []"; cases "snd (json_Unmarshal n data [])";
      cases "Parse p (fst (json_Unmarshal n data []))";
      cases "snd (Parse p (fst (json_Unmarshal n data [])))") auto

lemma Scan_text:
  "v = VString s \<or> v = VBytes s \<Longrightarrow>
   Scan p d v = (case Parse p s of
                   (parsed, Some err) \<Rightarrow> (d, Some (During DatabaseScan err))
                 | (parsed, None) \<Rightarrow> (parsed, None))"
  by (auto simp: Scan_def)

lemma Scan_success:
  "snd (Scan p d v) = None \<Longrightarrow> UUID (fst (Scan p d v)) \<noteq> uuid_Nil"
  by (cases v) (auto simp: Scan_def split: prod.splits option.splits dest: Parse_returns_nonzero)

lemma Scan_failure:
  "snd (Scan p d v) \<noteq> None \<Longrightarrow> fst (Scan p d v) = d"
  by (cases v) (auto simp: Scan_def split: prod.splits option.splits)

section \<open>The reference primitive reads back what it writes\<close>

lemma xval_lower_hex:
  "lower_hex c \<Longrightarrow> \<exists>d. xval c = Some d \<and> d < 16 \<and> xdigit d = c"
proof -
  define n where "n = (of_char c :: nat)"
  assume "lower_hex c"
  then consider "48 \<le> n" "n \<le> 57" | "97 \<le> n" "n \<le> 102"
    by (auto simp: lower_hex_def Let_def n_def)
  then show ?thesis
  proof cases
    case 1
    then have "48 + (n - 48) = n" by simp
    then have "char_of (48 + (n - 48)) = c" by (simp add: n_def)
    with 1 show ?thesis
      by (auto simp: xval_def xdigit_def Let_def n_def [symmetric])
  next
    case 2
    then have "87 + (n - 87) = n" by simp
    then have "char_of (87 + (n - 87)) = c" by (simp add: n_def)
    with 2 show ?thesis
      by (auto simp: xval_def xdigit_def Let_def n_def [symmetric])
  qed
qed

lemma xvals_lower_hex:
  "list_all lower_hex cs \<Longrightarrow>
   \<exists>ds. xvals cs = Some ds \<and> length ds = length cs \<and> (\<forall>d \<in> set ds. d < 16) \<and> map xdigit ds = cs"
proof (induction cs)
  case Nil
  then show ?case by simp
next
  case (Cons c cs)
  then obtain ds where "xvals cs = Some ds" "length ds = length cs" "\<forall>d \<in> set ds. d < 16"
    "map xdigit ds = cs" by auto
  moreover from Cons.prems obtain d where "xval c = Some d" "d < 16" "xdigit d = c"
    using xval_lower_hex by auto
  ultimately show ?case by simp
qed

lemma hv_snoc: "hv (ds @ [d]) = 16 * hv ds + d"
  by (simp add: hv_def)

lemma hex_value_snoc: "hex_value (ds @ [d]) = 16 * hex_value ds + of_nat d"
  by (simp add: hex_value_def)

lemma hex_value_hv: "hex_value ds = of_nat (hv ds)"
  by (induction ds rule: rev_induct) (simp_all add: hex_value_snoc hv_snoc, simp_all add: hex_value_def hv_def)

lemma hv_bound: "\<forall>d \<in> set ds. d < 16 \<Longrightarrow> hv ds < 16 ^ length ds"
proof (induction ds rule: rev_induct)
  case Nil
  then show ?case by (simp add: hv_def)
next
  case (snoc d ds)
  then have "hv ds < 16 ^ length ds" "d < 16" by auto
  then have "16 * hv ds + d < 16 * 16 ^ length ds" by linarith
  then show ?case by (simp add: hv_snoc)
qed

lemma hv_digit:
  "\<forall>d \<in> set ds. d < 16 \<Longrightarrow> i < length ds \<Longrightarrow>
   (hv ds div 16 ^ (length ds - 1 - i)) mod 16 = ds ! i"
proof (induction ds rule: rev_induct)
  case Nil
  then show ?case by simp
next
  case (snoc d ds)
  have d: "d < 16" using snoc.prems by simp
  show ?case
  proof (cases "i = length ds")
    case True
    with d show ?thesis by (simp add: hv_snoc)
  next
    case False
    with snoc.prems have i: "i < length ds" by simp
    then obtain k where k: "length ds - i = Suc k" "k = length ds - 1 - i"
      by (cases "length ds - i") auto
    have "(16 * hv ds + d) div 16 ^ Suc k = ((16 * hv ds + d) div 16) div 16 ^ k"
      by (simp add: div_mult2_eq)
    also have "(16 * hv ds + d) div 16 = hv ds" using d by simp
    finally have "(hv (ds @ [d]) div 16 ^ (length (ds @ [d]) - 1 - i)) mod 16
                  = (hv ds div 16 ^ (length ds - 1 - i)) mod 16"
      using k by (simp add: hv_snoc)
    also have "\<dots> = ds ! i" using snoc.IH snoc.prems i by simp
    finally show ?thesis using i by (simp add: nth_append)
  qed
qed


lemma nibble_of_nat:
  assumes "n < 2 ^ 128"
  shows "nibble (of_nat n) i = (n div 16 ^ (31 - i)) mod 16"
proof -
  have m: "(x :: raw) AND 15 = take_bit 4 x" for x
    by (simp add: take_bit_eq_mask mask_eq_exp_minus_1)
  have u: "unat (of_nat n :: raw) = n"
    using assms by (simp add: unat_of_nat)
  have p: "(2::nat) ^ (4 * (31 - i)) = 16 ^ (31 - i)"
    by (simp add: power_mult)
  have "nibble (of_nat n) i = unat (take_bit 4 (drop_bit (4 * (31 - i)) (of_nat n :: raw)))"
    by (simp only: nibble_def m)
  also have "\<dots> = take_bit 4 (unat (drop_bit (4 * (31 - i)) (of_nat n :: raw)))"
    by (rule unsigned_take_bit_eq)
  also have "\<dots> = take_bit 4 (drop_bit (4 * (31 - i)) n)"
    by (simp only: unat_drop_bit_eq u)
  also have "\<dots> = (n div 16 ^ (31 - i)) mod 16"
    by (simp add: take_bit_eq_mod drop_bit_eq_div p)
  finally show ?thesis .
qed

lemma nibble_hex_value:
  assumes "length ds = 32" and "\<forall>d \<in> set ds. d < 16" and "i < 32"
  shows "nibble (hex_value ds) i = ds ! i"
proof -
  from hv_bound [OF assms(2)] assms(1) have "hv ds < 2 ^ 128"
    by simp
  then have "nibble (hex_value ds) i = (hv ds div 16 ^ (31 - i)) mod 16"
    by (simp add: hex_value_hv nibble_of_nat)
  also from hv_digit [OF assms(2), of i] assms(1,3) have "\<dots> = ds ! i"
    by simp
  finally show ?thesis .
qed

lemma digits_hex_value:
  assumes "length ds = 32" and "\<forall>d \<in> set ds. d < 16"
  shows "map (\<lambda>i. xdigit (nibble (hex_value ds) i)) [0..<32] = map xdigit ds"
proof (rule nth_equalityI)
  show "length (map (\<lambda>i. xdigit (nibble (hex_value ds) i)) [0..<32]) = length (map xdigit ds)"
    using assms(1) by simp
next
  fix i assume "i < length (map (\<lambda>i. xdigit (nibble (hex_value ds) i)) [0..<32])"
  then have i: "i < 32" by simp
  with assms show "map (\<lambda>i. xdigit (nibble (hex_value ds) i)) [0..<32] ! i = map xdigit ds ! i"
    by (simp add: nibble_hex_value del: upt_Suc)
qed

lemma hyphenated:
  assumes "length t = 36" and "t ! 8 = CHR ''-''" and "t ! 13 = CHR ''-''"
    and "t ! 18 = CHR ''-''" and "t ! 23 = CHR ''-''"
  shows "t = take 8 t @ ''-'' @ take 4 (drop 9 t) @ ''-'' @ take 4 (drop 14 t) @ ''-''
             @ take 4 (drop 19 t) @ ''-'' @ drop 24 t"
proof -
  have c: "drop k t = t ! k # drop (Suc k) t" if "k < 36" for k
    using that assms(1) by (simp add: Cons_nth_drop_Suc)
  have s: "drop k t = take 4 (drop k t) @ drop (k + 4) t" for k
    by (metis append_take_drop_id drop_drop add.commute)
  have "t = take 8 t @ drop 8 t" by simp
  also have "drop 8 t = CHR ''-'' # drop 9 t" using c [of 8] assms(2) by simp
  also have "drop 9 t = take 4 (drop 9 t) @ drop 13 t" using s [of 9] by simp
  also have "drop 13 t = CHR ''-'' # drop 14 t" using c [of 13] assms(3) by simp
  also have "drop 14 t = take 4 (drop 14 t) @ drop 18 t" using s [of 14] by simp
  also have "drop 18 t = CHR ''-'' # drop 19 t" using c [of 18] assms(4) by simp
  also have "drop 19 t = take 4 (drop 19 t) @ drop 23 t" using s [of 19] by simp
  also have "drop 23 t = CHR ''-'' # drop 24 t" using c [of 23] assms(5) by simp
  finally show ?thesis by simp
qed

lemma canonical_round_trip:
  assumes "canonical_text t"
  shows "snd (canonical_parse t) = None \<and> canonical_format (fst (canonical_parse t)) = t"
proof -
  define cs where "cs = take 8 t @ take 4 (drop 9 t) @ take 4 (drop 14 t)
                          @ take 4 (drop 19 t) @ drop 24 t"
  from assms have len: "length t = 36"
    and hy: "t ! 8 = CHR ''-''" "t ! 13 = CHR ''-''" "t ! 18 = CHR ''-''" "t ! 23 = CHR ''-''"
    and lh: "list_all lower_hex cs"
    by (simp_all add: canonical_text_def cs_def)
  from len have lcs: "length cs = 32"
    by (simp add: cs_def)
  from xvals_lower_hex [OF lh] lcs obtain ds where ds: "xvals cs = Some ds" "length ds = 32"
    "\<forall>d \<in> set ds. d < 16" "map xdigit ds = cs"
    by auto
  from len hy ds(1) have parse: "canonical_parse t = (hex_value ds, None)"
    by (simp add: canonical_parse_def cs_def [symmetric])
  have h: "map (\<lambda>i. xdigit (nibble (hex_value ds) i)) [0..<32] = cs"
    using digits_hex_value [OF ds(2,3)] ds(4) by simp
  have parts: "take 8 cs = take 8 t" "take 4 (drop 8 cs) = take 4 (drop 9 t)"
    "take 4 (drop 12 cs) = take 4 (drop 14 t)" "take 4 (drop 16 cs) = take 4 (drop 19 t)"
    "drop 20 cs = drop 24 t"
    using len by (simp_all add: cs_def)
  have "canonical_format (hex_value ds)
        = take 8 t @ ''-'' @ take 4 (drop 9 t) @ ''-'' @ take 4 (drop 14 t) @ ''-''
            @ take 4 (drop 19 t) @ ''-'' @ drop 24 t"
    unfolding canonical_format_def h Let_def parts ..
  also have "\<dots> = t"
    using hyphenated [OF len hy] by simp
  finally show ?thesis
    by (simp add: parse)
qed

lemma canonical_format_zero:
  "canonical_format 0 = ''00000000-0000-0000-0000-000000000000''"
  by code_simp

lemma canonical_nonzero:
  assumes "canonical_text t" and "t \<noteq> ''00000000-0000-0000-0000-000000000000''"
  shows "fst (canonical_parse t) \<noteq> uuid_Nil"
proof
  assume "fst (canonical_parse t) = uuid_Nil"
  with canonical_round_trip [OF assms(1)] have "canonical_format 0 = t"
    by (simp add: uuid_Nil_def)
  with assms(2) show False
    by (simp add: canonical_format_zero)
qed

lemma xval_xdigit: "d < 16 \<Longrightarrow> xval (xdigit d) = Some d"
proof -
  assume d: "d < 16"
  show ?thesis
  proof (cases "d < 10")
    case True
    then have "(of_char (char_of (48 + d)) :: nat) = 48 + d"
      by (simp add: of_char_of)
    with True show ?thesis
      by (simp add: xval_def xdigit_def Let_def)
  next
    case False
    with d have "(of_char (char_of (87 + d)) :: nat) = 87 + d"
      by (simp add: of_char_of)
    with False d show ?thesis
      by (simp add: xval_def xdigit_def Let_def)
  qed
qed

lemma xvals_xdigit: "\<forall>d \<in> set ds. d < 16 \<Longrightarrow> xvals (map xdigit ds) = Some ds"
  by (induction ds) (simp_all add: xval_xdigit)

lemma lower_hex_xdigit: "d < 16 \<Longrightarrow> lower_hex (xdigit d)"
proof -
  assume d: "d < 16"
  show ?thesis
  proof (cases "d < 10")
    case True
    then have "(of_char (char_of (48 + d)) :: nat) = 48 + d"
      by (simp add: of_char_of)
    with True show ?thesis
      by (simp add: lower_hex_def xdigit_def Let_def)
  next
    case False
    with d have "(of_char (char_of (87 + d)) :: nat) = 87 + d"
      by (simp add: of_char_of)
    with False d show ?thesis
      by (simp add: lower_hex_def xdigit_def Let_def)
  qed
qed

lemma hv_expansion:
  "n < 16 ^ k \<Longrightarrow> hv (map (\<lambda>i. (n div 16 ^ (k - 1 - i)) mod 16) [0..<k]) = n"
proof (induction k arbitrary: n)
  case 0
  then show ?case by (simp add: hv_def)
next
  case (Suc k)
  then have small: "n div 16 < 16 ^ k"
    by (simp add: less_mult_imp_div_less)
  have eq: "map (\<lambda>i. (n div 16 ^ (Suc k - 1 - i)) mod 16) [0..<k]
            = map (\<lambda>i. ((n div 16) div 16 ^ (k - 1 - i)) mod 16) [0..<k]"
  proof (rule map_cong [OF refl])
    fix i assume "i \<in> set [0..<k]"
    then have "k - i = Suc (k - 1 - i)" by auto
    then show "(n div 16 ^ (Suc k - 1 - i)) mod 16 = ((n div 16) div 16 ^ (k - 1 - i)) mod 16"
      by (simp add: div_mult2_eq)
  qed
  have "map (\<lambda>i. (n div 16 ^ (Suc k - 1 - i)) mod 16) [0..<Suc k]
        = map (\<lambda>i. (n div 16 ^ (Suc k - 1 - i)) mod 16) [0..<k] @ [n mod 16]"
    by simp
  then have "hv (map (\<lambda>i. (n div 16 ^ (Suc k - 1 - i)) mod 16) [0..<Suc k])
             = 16 * hv (map (\<lambda>i. (n div 16 ^ (Suc k - 1 - i)) mod 16) [0..<k]) + n mod 16"
    by (simp only: hv_snoc)
  also have "\<dots> = 16 * hv (map (\<lambda>i. ((n div 16) div 16 ^ (k - 1 - i)) mod 16) [0..<k])
                    + n mod 16"
    by (simp only: eq)
  also have "\<dots> = 16 * (n div 16) + n mod 16"
    by (simp only: Suc.IH [OF small])
  also have "\<dots> = n" by simp
  finally show ?case .
qed

lemma nibble_unat: "nibble r i = (unat r div 16 ^ (31 - i)) mod 16"
proof -
  have "unat r < 2 ^ 128"
    using unsigned_less [of r] by simp
  from nibble_of_nat [OF this, of i] show ?thesis by simp
qed

lemma nibble_less: "nibble r i < 16"
  by (simp add: nibble_unat)

lemma hex_value_nibbles: "hex_value (map (nibble r) [0..<32]) = r"
proof -
  have "unat r < 16 ^ 32"
    using unsigned_less [of r] by simp
  moreover have "nibble r = (\<lambda>i. (unat r div 16 ^ (32 - 1 - i)) mod 16)"
    by (rule ext) (simp add: nibble_unat)
  ultimately have "hv (map (nibble r) [0..<32]) = unat r"
    by (simp only: hv_expansion)
  then show ?thesis
    by (simp add: hex_value_hv del: upt_Suc)
qed

lemma canonical_parse_format: "canonical_parse (canonical_format r) = (r, None)"
proof -
  define ds where "ds = map (nibble r) [0..<32]"
  define h where "h = map xdigit ds"
  have lh: "length h = 32" by (simp add: h_def ds_def)
  have small: "\<forall>d \<in> set ds. d < 16" by (auto simp: ds_def nibble_less)
  have f: "canonical_format r
           = take 8 h @ ''-'' @ take 4 (drop 8 h) @ ''-'' @ take 4 (drop 12 h) @ ''-''
               @ take 4 (drop 16 h) @ ''-'' @ drop 20 h"
    by (simp add: canonical_format_def Let_def h_def ds_def comp_def del: upt_Suc)
  define a b c d e where "a = take 8 h" and "b = take 4 (drop 8 h)" and "c = take 4 (drop 12 h)"
    and "d = take 4 (drop 16 h)" and "e = drop 20 h"
  have lens: "length a = 8" "length b = 4" "length c = 4" "length d = 4" "length e = 12"
    using lh by (simp_all add: a_def b_def c_def d_def e_def)
  have s4: "drop k h = take 4 (drop k h) @ drop (k + 4) h" for k
    by (metis append_take_drop_id drop_drop add.commute)
  have "h = take 8 h @ drop 8 h" by simp
  also have "drop 8 h = take 4 (drop 8 h) @ drop 12 h" using s4 [of 8] by simp
  also have "drop 12 h = take 4 (drop 12 h) @ drop 16 h" using s4 [of 12] by simp
  also have "drop 16 h = take 4 (drop 16 h) @ drop 20 h" using s4 [of 16] by simp
  finally have whole: "a @ b @ c @ d @ e = h"
    by (simp add: a_def b_def c_def d_def e_def)
  have f': "canonical_format r = a @ ''-'' @ b @ ''-'' @ c @ ''-'' @ d @ ''-'' @ e"
    by (simp only: f a_def b_def c_def d_def e_def)
  have "xvals (a @ b @ c @ d @ e) = Some ds"
    unfolding whole h_def by (rule xvals_xdigit [OF small])
  with lens show ?thesis
    unfolding f'
    by (simp add: canonical_parse_def nth_append ds_def hex_value_nibbles del: upt_Suc)
qed

lemma canonical_format_nonempty: "canonical_format r \<noteq> []"
  by (simp add: canonical_format_def Let_def)

lemma canonical_reads_back:
  "uuid_String canonical r \<noteq> [] \<and> uuid_Parse canonical (uuid_String canonical r) = (r, None)"
  by (simp add: canonical_def canonical_format_nonempty canonical_parse_format)

lemma counter_New_nonzero: "fst (counter_New g) \<noteq> uuid_Nil"
  by (simp add: counter_New_def uuid_Nil_def or_eq_0_iff)

section \<open>The claims\<close>

text \<open>
  C1. A value that a constructor returns without error, or that a decoder writes
  without error, is never the zero identifier: \<open>IsZero\<close> is false of it. This covers
  \<open>Parse\<close>, \<open>MustParse\<close> (when it returns), \<open>FromGoogleUUID\<close>, \<open>FromProto\<close>,
  \<open>FromStringValue\<close>, \<open>UnmarshalJSON\<close> and \<open>Scan\<close>. \<open>New\<close> has no check of its own
  and no error: it hands on what the generator returns, so its result is not zero
  whenever the generator keeps its contract of never returning the zero identifier, as
  the reference generator does at every draw.
\<close>

theorem constructed_is_not_zero:
  "(fst (uuid_New g) \<noteq> uuid_Nil \<longrightarrow> \<not> IsZero (fst (New uuid_New g)))
   \<and> \<not> IsZero (fst (New counter_New c))
   \<and> (snd (Parse p s) = None \<longrightarrow> \<not> IsZero (fst (Parse p s)))
   \<and> (MustParse p s = Returns u \<longrightarrow> \<not> IsZero u)
   \<and> (snd (FromGoogleUUID r) = None \<longrightarrow> \<not> IsZero (fst (FromGoogleUUID r)))
   \<and> (snd (FromProto p pb) = None \<longrightarrow> \<not> IsZero (fst (FromProto p pb)))
   \<and> (snd (FromStringValue p sv) = None \<longrightarrow> \<not> IsZero (fst (FromStringValue p sv)))
   \<and> (snd (UnmarshalJSON n p d data) = None
        \<longrightarrow> \<not> IsZero (fst (UnmarshalJSON n p d data)))
   \<and> (snd (Scan p d v) = None \<longrightarrow> \<not> IsZero (fst (Scan p d v)))"
proof (intro conjI impI)
  assume "fst (uuid_New g) \<noteq> uuid_Nil"
  then show "\<not> IsZero (fst (New uuid_New g))"
    by (cases "uuid_New g") (simp add: New_def IsZero_def)
next
  from counter_New_nonzero [of c] show "\<not> IsZero (fst (New counter_New c))"
    by (cases "counter_New c") (simp add: New_def IsZero_def)
next
  assume "snd (Parse p s) = None"
  then show "\<not> IsZero (fst (Parse p s))"
    by (simp add: IsZero_def Parse_success_nonzero)
next
  assume "MustParse p s = Returns u"
  then have "Parse p s = (u, None)"
    by (cases "Parse p s"; cases "snd (Parse p s)") (auto simp: MustParse_def)
  then show "\<not> IsZero u"
    by (simp add: IsZero_def Parse_returns_nonzero)
next
  assume "snd (FromGoogleUUID r) = None"
  then show "\<not> IsZero (fst (FromGoogleUUID r))"
    by (auto simp: FromGoogleUUID_def IsZero_def split: if_splits)
next
  assume ok: "snd (FromProto p pb) = None"
  then obtain m where "pb = Some m"
    by (cases pb) (auto simp: FromProto_def)
  with ok show "\<not> IsZero (fst (FromProto p pb))"
    by (simp add: FromProto_Some IsZero_def Parse_success_nonzero)
next
  assume ok: "snd (FromStringValue p sv) = None"
  then obtain m where "sv = Some m"
    by (cases sv) (auto simp: FromStringValue_def)
  with ok show "\<not> IsZero (fst (FromStringValue p sv))"
    by (simp add: FromStringValue_Some IsZero_def Parse_success_nonzero)
next
  assume "snd (UnmarshalJSON n p d data) = None"
  then show "\<not> IsZero (fst (UnmarshalJSON n p d data))"
    by (simp add: IsZero_def UnmarshalJSON_success)
next
  assume "snd (Scan p d v) = None"
  then show "\<not> IsZero (fst (Scan p d v))"
    by (simp add: IsZero_def Scan_success)
qed

theorem constructed_is_not_zero_witness:
  "\<not> IsZero (fst (New counter_New 0))
   \<and> \<not> IsZero (fst (Parse canonical ''550e8400-e29b-41d4-a716-446655440000''))
   \<and> \<not> IsZero \<lparr>UUID = 0x550e8400e29b41d4a716446655440000\<rparr>
   \<and> \<not> IsZero (fst (FromGoogleUUID 1))
   \<and> \<not> IsZero (fst (FromProto canonical
          (Some \<lparr>Val = ''550e8400-e29b-41d4-a716-446655440000''\<rparr>)))
   \<and> \<not> IsZero (fst (FromStringValue canonical
          (Some \<lparr>Value_sv = ''550e8400-e29b-41d4-a716-446655440000''\<rparr>)))
   \<and> \<not> IsZero (fst (UnmarshalJSON scalars canonical ValidatedUUID_zero
          (scalar_quote ''550e8400-e29b-41d4-a716-446655440000'')))
   \<and> \<not> IsZero (fst (Scan canonical ValidatedUUID_zero
          (VBytes ''550e8400-e29b-41d4-a716-446655440000'')))"
proof -
  have h1: "fst (counter_New 0) \<noteq> uuid_Nil"
    by code_simp
  have h2: "snd (Parse canonical ''550e8400-e29b-41d4-a716-446655440000'') = None"
    by code_simp
  have h3: "MustParse canonical ''550e8400-e29b-41d4-a716-446655440000''
            = Returns \<lparr>UUID = 0x550e8400e29b41d4a716446655440000\<rparr>"
    by code_simp
  have h4: "snd (FromGoogleUUID 1) = None"
    by code_simp
  have h5: "snd (FromProto canonical
              (Some \<lparr>Val = ''550e8400-e29b-41d4-a716-446655440000''\<rparr>)) = None"
    by code_simp
  have h6: "snd (FromStringValue canonical
              (Some \<lparr>Value_sv = ''550e8400-e29b-41d4-a716-446655440000''\<rparr>)) = None"
    by code_simp
  have h7: "snd (UnmarshalJSON scalars canonical ValidatedUUID_zero
              (scalar_quote ''550e8400-e29b-41d4-a716-446655440000'')) = None"
    by code_simp
  have h8: "snd (Scan canonical ValidatedUUID_zero
              (VBytes ''550e8400-e29b-41d4-a716-446655440000'')) = None"
    by code_simp
  from h1 h2 h3 h4 h5 h6 h7 h8
    constructed_is_not_zero [where uuid_New = counter_New and g = 0 and p = canonical
      and s = "''550e8400-e29b-41d4-a716-446655440000''"
      and u = "\<lparr>UUID = 0x550e8400e29b41d4a716446655440000\<rparr>" and r = 1
      and pb = "Some \<lparr>Val = ''550e8400-e29b-41d4-a716-446655440000''\<rparr>"
      and sv = "Some \<lparr>Value_sv = ''550e8400-e29b-41d4-a716-446655440000''\<rparr>"
      and n = scalars and d = ValidatedUUID_zero
      and data = "scalar_quote ''550e8400-e29b-41d4-a716-446655440000''"
      and v = "VBytes ''550e8400-e29b-41d4-a716-446655440000''"]
  show ?thesis
    by blast
qed

text \<open>
  C2. \<open>Parse\<close> fails in three ways and no other. The empty text gives \<open>EmptyInput\<close>
  whatever the library would have said of it, since the library is not asked; a
  non-empty text the library rejects gives \<open>MalformedText\<close> around the library's error;
  a non-empty text the library reads as the zero identifier gives \<open>ZeroValue\<close>.
\<close>

theorem Parse_failure_modes:
  "Parse p [] = (ValidatedUUID_zero, Some EmptyInput)
   \<and> (s \<noteq> [] \<and> snd (uuid_Parse p s) = Some e
        \<longrightarrow> snd (Parse p s) = Some (MalformedText e))
   \<and> (s \<noteq> [] \<and> uuid_Parse p s = (uuid_Nil, None) \<longrightarrow> snd (Parse p s) = Some ZeroValue)
   \<and> (snd (Parse p s) = None
        \<or> (s = [] \<and> snd (Parse p s) = Some EmptyInput)
        \<or> (s \<noteq> [] \<and> (\<exists>e. snd (uuid_Parse p s) = Some e
               \<and> snd (Parse p s) = Some (MalformedText e)))
        \<or> (s \<noteq> [] \<and> uuid_Parse p s = (uuid_Nil, None)
               \<and> snd (Parse p s) = Some ZeroValue))"
  using Parse_empty [of p] Parse_rejected [of s p e] Parse_zero [of s p]
    Parse_failure_kinds [of p s]
  by simp

theorem Parse_failure_modes_witness:
  "snd (Parse canonical []) = Some EmptyInput
   \<and> snd (Parse canonical ''not-a-uuid'') = Some (MalformedText ''invalid UUID length'')
   \<and> snd (Parse canonical ''00000000-0000-0000-0000-000000000000'') = Some ZeroValue"
proof -
  have h1: "''not-a-uuid'' \<noteq> []
            \<and> snd (uuid_Parse canonical ''not-a-uuid'') = Some ''invalid UUID length''"
    by code_simp
  have h2: "''00000000-0000-0000-0000-000000000000'' \<noteq> []
            \<and> uuid_Parse canonical ''00000000-0000-0000-0000-000000000000''
                = (uuid_Nil, None)"
    by code_simp
  from h1 h2
    Parse_failure_modes [of canonical "''not-a-uuid''" "''invalid UUID length''"]
    Parse_failure_modes [of canonical "''00000000-0000-0000-0000-000000000000''"]
  show ?thesis
    by simp
qed

text \<open>
  C3. Text round trip. Take a text \<open>t\<close> that is not empty, that the library reads
  without error as an identifier other than zero, and that is canonical, that is, the
  library writes that identifier as \<open>t\<close> again. Then \<open>Parse\<close> succeeds on \<open>t\<close> and
  \<open>String\<close> of the result is \<open>t\<close>. With the reference primitive this is so for every
  text in the canonical lowercase hyphenated spelling other than the all-zero one.
\<close>

theorem text_round_trip:
  "(t \<noteq> [] \<and> snd (uuid_Parse p t) = None \<and> fst (uuid_Parse p t) \<noteq> uuid_Nil
      \<and> uuid_String p (fst (uuid_Parse p t)) = t
     \<longrightarrow> snd (Parse p t) = None \<and> String p (fst (Parse p t)) = t)
   \<and> (canonical_text t \<and> t \<noteq> ''00000000-0000-0000-0000-000000000000''
       \<longrightarrow> snd (Parse canonical t) = None \<and> String canonical (fst (Parse canonical t)) = t)"
proof -
  have general: "snd (Parse q t) = None \<and> String q (fst (Parse q t)) = t"
    if "t \<noteq> []" "snd (uuid_Parse q t) = None" "fst (uuid_Parse q t) \<noteq> uuid_Nil"
      "uuid_String q (fst (uuid_Parse q t)) = t" for q
  proof -
    from that(1-3) have ok: "snd (Parse q t) = None"
      by (simp add: Parse_success_iff)
    then have "fst (Parse q t) = \<lparr>UUID = fst (uuid_Parse q t)\<rparr>"
      by (rule Parse_success_value)
    with that(4) ok show ?thesis
      by (simp add: String_def)
  qed
  have reference: "snd (Parse canonical t) = None
                   \<and> String canonical (fst (Parse canonical t)) = t"
    if "canonical_text t" "t \<noteq> ''00000000-0000-0000-0000-000000000000''"
  proof (rule general)
    from that(1) show "t \<noteq> []"
      by (auto simp: canonical_text_def)
    from canonical_round_trip [OF that(1)]
    show "snd (uuid_Parse canonical t) = None"
      and "uuid_String canonical (fst (uuid_Parse canonical t)) = t"
      by (simp_all add: canonical_def)
    from canonical_nonzero [OF that] show "fst (uuid_Parse canonical t) \<noteq> uuid_Nil"
      by (simp add: canonical_def)
  qed
  show ?thesis
  proof (rule conjI; rule impI)
    assume "t \<noteq> [] \<and> snd (uuid_Parse p t) = None \<and> fst (uuid_Parse p t) \<noteq> uuid_Nil
            \<and> uuid_String p (fst (uuid_Parse p t)) = t"
    then show "snd (Parse p t) = None \<and> String p (fst (Parse p t)) = t"
      using general [of p] by simp
  next
    assume "canonical_text t \<and> t \<noteq> ''00000000-0000-0000-0000-000000000000''"
    then show "snd (Parse canonical t) = None
               \<and> String canonical (fst (Parse canonical t)) = t"
      using reference by simp
  qed
qed

theorem text_round_trip_witness:
  "snd (Parse canonical ''550e8400-e29b-41d4-a716-446655440000'') = None
   \<and> String canonical (fst (Parse canonical ''550e8400-e29b-41d4-a716-446655440000''))
       = ''550e8400-e29b-41d4-a716-446655440000''"
proof -
  have h1: "''550e8400-e29b-41d4-a716-446655440000'' \<noteq> []
            \<and> snd (uuid_Parse canonical ''550e8400-e29b-41d4-a716-446655440000'') = None
            \<and> fst (uuid_Parse canonical ''550e8400-e29b-41d4-a716-446655440000'') \<noteq> uuid_Nil
            \<and> uuid_String canonical
                 (fst (uuid_Parse canonical ''550e8400-e29b-41d4-a716-446655440000''))
               = ''550e8400-e29b-41d4-a716-446655440000''"
    by code_simp
  have h2: "canonical_text ''550e8400-e29b-41d4-a716-446655440000''
            \<and> ''550e8400-e29b-41d4-a716-446655440000''
                \<noteq> ''00000000-0000-0000-0000-000000000000''"
    by code_simp
  from h1 h2 text_round_trip [of "''550e8400-e29b-41d4-a716-446655440000''" canonical]
  show ?thesis
    by blast
qed

text \<open>
  C4. \<open>Validate\<close> fails, with \<open>ZeroValue\<close>, exactly on the zero identifier, which is
  exactly when \<open>IsZero\<close> holds. Each outbound conversion (\<open>MarshalJSON\<close>, \<open>ToProto\<close>,
  \<open>ToStringValue\<close>, \<open>Value\<close>) returns as its error the verdict of \<open>Validate\<close> wrapped in
  the conversion's own context, so it fails exactly on the zero identifier and the
  innermost error is then \<open>ZeroValue\<close>; it returns an output exactly when it returns no
  error. The checks made elsewhere agree with \<open>Validate\<close>: \<open>FromGoogleUUID\<close> returns the
  very error \<open>Validate\<close> gives for the wrapped value, and what \<open>Parse\<close> returns without
  error passes \<open>Validate\<close>.
\<close>

theorem outbound_validation_gate:
  "(Validate u = Some ZeroValue) = (UUID u = uuid_Nil)
   \<and> (Validate u = None) = (\<not> IsZero u)
   \<and> (Validate u = None \<or> Validate u = Some ZeroValue)
   \<and> snd (MarshalJSON n p u) = map_option (During JSONMarshalling) (Validate u)
   \<and> (fst (MarshalJSON n p u) = None) = IsZero u
   \<and> snd (ToProto p u) = map_option (During ProtobufMarshalling) (Validate u)
   \<and> (fst (ToProto p u) = None) = IsZero u
   \<and> snd (ToStringValue p u) = map_option (During StringValueConversion) (Validate u)
   \<and> (fst (ToStringValue p u) = None) = IsZero u
   \<and> snd (Value p u) = map_option (During DatabaseWrite) (Validate u)
   \<and> (fst (Value p u) = VNil) = IsZero u
   \<and> map_option cause (map_option (During c) (Validate u)) = Validate u
   \<and> snd (FromGoogleUUID r) = Validate \<lparr>UUID = r\<rparr>
   \<and> (snd (Parse p s) = None \<longrightarrow> Validate (fst (Parse p s)) = None)"
proof (intro conjI impI)
  show "(Validate u = Some ZeroValue) = (UUID u = uuid_Nil)"
    by (rule Validate_zero)
  show "(Validate u = None) = (\<not> IsZero u)"
    by (rule Validate_IsZero)
  show "Validate u = None \<or> Validate u = Some ZeroValue"
    by (simp add: Validate_def)
  show "snd (MarshalJSON n p u) = map_option (During JSONMarshalling) (Validate u)"
    by (simp add: MarshalJSON_def json_Marshal_def Validate_def)
  show "(fst (MarshalJSON n p u) = None) = IsZero u"
    by (simp add: MarshalJSON_def json_Marshal_def Validate_def IsZero_def)
  show "snd (ToProto p u) = map_option (During ProtobufMarshalling) (Validate u)"
    by (simp add: ToProto_def Validate_def)
  show "(fst (ToProto p u) = None) = IsZero u"
    by (simp add: ToProto_def Validate_def IsZero_def)
  show "snd (ToStringValue p u) = map_option (During StringValueConversion) (Validate u)"
    by (simp add: ToStringValue_def Validate_def)
  show "(fst (ToStringValue p u) = None) = IsZero u"
    by (simp add: ToStringValue_def wrapperspb_String_def Validate_def IsZero_def)
  show "snd (Value p u) = map_option (During DatabaseWrite) (Validate u)"
    by (simp add: Value_def Validate_def)
  show "(fst (Value p u) = VNil) = IsZero u"
    by (simp add: Value_def Validate_def IsZero_def)
  show "map_option cause (map_option (During c) (Validate u)) = Validate u"
    by (simp add: Validate_def)
  show "snd (FromGoogleUUID r) = Validate \<lparr>UUID = r\<rparr>"
    by (simp add: FromGoogleUUID_def Validate_def)
next
  assume "snd (Parse p s) = None"
  then show "Validate (fst (Parse p s)) = None"
    by (simp add: Validate_def Parse_success_nonzero)
qed

theorem outbound_validation_gate_witness:
  "snd (MarshalJSON scalars canonical ValidatedUUID_zero)
     = Some (During JSONMarshalling ZeroValue)
   \<and> snd (ToProto canonical ValidatedUUID_zero) = Some (During ProtobufMarshalling ZeroValue)
   \<and> snd (ToStringValue canonical ValidatedUUID_zero)
       = Some (During StringValueConversion ZeroValue)
   \<and> snd (Value canonical ValidatedUUID_zero) = Some (During DatabaseWrite ZeroValue)
   \<and> fst (ToProto canonical ValidatedUUID_zero) = None
   \<and> snd (ToProto canonical \<lparr>UUID = 1\<rparr>) = None
   \<and> fst (ToProto canonical \<lparr>UUID = 1\<rparr>) \<noteq> None
   \<and> Validate (fst (Parse canonical ''550e8400-e29b-41d4-a716-446655440000'')) = None"
proof -
  have z: "Validate ValidatedUUID_zero = Some ZeroValue" "IsZero ValidatedUUID_zero"
    by (simp_all add: Validate_def IsZero_def ValidatedUUID_zero_def)
  have o: "Validate \<lparr>UUID = 1\<rparr> = None" "\<not> IsZero \<lparr>UUID = 1\<rparr>"
    by (simp_all add: Validate_def IsZero_def uuid_Nil_def)
  have h: "snd (Parse canonical ''550e8400-e29b-41d4-a716-446655440000'') = None"
    by code_simp
  from z o h
    outbound_validation_gate [of ValidatedUUID_zero scalars canonical _ _
      "''550e8400-e29b-41d4-a716-446655440000''"]
    outbound_validation_gate [of "\<lparr>UUID = 1\<rparr>" scalars canonical]
  show ?thesis
    by simp
qed

text \<open>
  C5. A decode that fails leaves the destination as it was, whatever it held (a fresh
  destination holds the zero value and keeps it). A decode that succeeds has written a
  value that passes \<open>Validate\<close>.
\<close>

theorem decode_is_atomic:
  "(snd (UnmarshalJSON n p d data) \<noteq> None \<longrightarrow> fst (UnmarshalJSON n p d data) = d)
   \<and> (snd (Scan p d v) \<noteq> None \<longrightarrow> fst (Scan p d v) = d)
   \<and> (snd (UnmarshalJSON n p d data) = None
        \<longrightarrow> Validate (fst (UnmarshalJSON n p d data)) = None)
   \<and> (snd (Scan p d v) = None \<longrightarrow> Validate (fst (Scan p d v)) = None)"
  by (simp add: UnmarshalJSON_failure Scan_failure UnmarshalJSON_success Scan_success
      Validate_def)

theorem decode_is_atomic_witness:
  "fst (UnmarshalJSON scalars canonical \<lparr>UUID = 7\<rparr> (scalar_quote ''invalid-uuid''))
     = \<lparr>UUID = 7\<rparr>
   \<and> fst (Scan canonical \<lparr>UUID = 7\<rparr> (VString ''00000000-0000-0000-0000-000000000000''))
       = \<lparr>UUID = 7\<rparr>
   \<and> Validate (fst (UnmarshalJSON scalars canonical \<lparr>UUID = 7\<rparr>
          (scalar_quote ''550e8400-e29b-41d4-a716-446655440000''))) = None
   \<and> Validate (fst (Scan canonical \<lparr>UUID = 7\<rparr>
          (VString ''550e8400-e29b-41d4-a716-446655440000''))) = None"
proof -
  have h1: "snd (UnmarshalJSON scalars canonical \<lparr>UUID = 7\<rparr>
              (scalar_quote ''invalid-uuid'')) \<noteq> None"
    by code_simp
  have h2: "snd (Scan canonical \<lparr>UUID = 7\<rparr>
              (VString ''00000000-0000-0000-0000-000000000000'')) \<noteq> None"
    by code_simp
  have h3: "snd (UnmarshalJSON scalars canonical \<lparr>UUID = 7\<rparr>
              (scalar_quote ''550e8400-e29b-41d4-a716-446655440000'')) = None"
    by code_simp
  have h4: "snd (Scan canonical \<lparr>UUID = 7\<rparr>
              (VString ''550e8400-e29b-41d4-a716-446655440000'')) = None"
    by code_simp
  from h1 h2
    decode_is_atomic [of scalars canonical "\<lparr>UUID = 7\<rparr>" "scalar_quote ''invalid-uuid''"
      "VString ''00000000-0000-0000-0000-000000000000''"]
  have a: "fst (UnmarshalJSON scalars canonical \<lparr>UUID = 7\<rparr> (scalar_quote ''invalid-uuid''))
             = \<lparr>UUID = 7\<rparr>
           \<and> fst (Scan canonical \<lparr>UUID = 7\<rparr>
                 (VString ''00000000-0000-0000-0000-000000000000'')) = \<lparr>UUID = 7\<rparr>"
    by blast
  from h3 h4
    decode_is_atomic [of scalars canonical "\<lparr>UUID = 7\<rparr>"
      "scalar_quote ''550e8400-e29b-41d4-a716-446655440000''"
      "VString ''550e8400-e29b-41d4-a716-446655440000''"]
  have b: "Validate (fst (UnmarshalJSON scalars canonical \<lparr>UUID = 7\<rparr>
             (scalar_quote ''550e8400-e29b-41d4-a716-446655440000''))) = None
           \<and> Validate (fst (Scan canonical \<lparr>UUID = 7\<rparr>
                 (VString ''550e8400-e29b-41d4-a716-446655440000''))) = None"
    by blast
  from a b show ?thesis
    by blast
qed

text \<open>
  C6. Message round trip. For an instance \<open>v\<close> that is not zero, whose text the library
  writes non-empty and reads back as the same identifier, \<open>ToProto\<close> succeeds and
  \<open>FromProto\<close> of its message succeeds and returns \<open>v\<close>, hence an instance with the same
  text; with the reference primitive this is so for every instance that is not zero.
  \<open>FromProto\<close> of the nil reference fails with \<open>NilMessage\<close>, and \<open>FromProto\<close> of a
  message holding "invalid-uuid", a text the library rejects, fails with
  \<open>MalformedText\<close>.
\<close>

theorem message_round_trip:
  "(\<not> IsZero v \<and> uuid_String p (UUID v) \<noteq> []
      \<and> uuid_Parse p (uuid_String p (UUID v)) = (UUID v, None)
     \<longrightarrow> snd (ToProto p v) = None
         \<and> FromProto p (fst (ToProto p v)) = (v, None)
         \<and> String p (fst (FromProto p (fst (ToProto p v)))) = String p v)
   \<and> (\<not> IsZero v \<longrightarrow> FromProto canonical (fst (ToProto canonical v)) = (v, None))
   \<and> FromProto p None = (ValidatedUUID_zero, Some NilMessage)
   \<and> (snd (uuid_Parse p ''invalid-uuid'') = Some e
        \<longrightarrow> FromProto p (Some \<lparr>Val = ''invalid-uuid''\<rparr>)
              = (ValidatedUUID_zero, Some (MalformedText e)))"
proof -
  have general: "snd (ToProto q v) = None
                 \<and> FromProto q (fst (ToProto q v)) = (v, None)
                 \<and> String q (fst (FromProto q (fst (ToProto q v)))) = String q v"
    if h: "\<not> IsZero v \<and> uuid_String q (UUID v) \<noteq> []
           \<and> uuid_Parse q (uuid_String q (UUID v)) = (UUID v, None)" for q
  proof -
    from h have nz: "UUID v \<noteq> uuid_Nil"
      by (simp add: IsZero_def)
    then have tp: "ToProto q v = (Some \<lparr>Val = uuid_String q (UUID v)\<rparr>, None)"
      by (simp add: ToProto_def Validate_def String_def)
    from h nz have "Parse q (uuid_String q (UUID v)) = (\<lparr>UUID = UUID v\<rparr>, None)"
      by (simp add: Parse_accepted)
    then have "FromProto q (fst (ToProto q v)) = (v, None)"
      by (simp add: tp FromProto_Some)
    with tp show ?thesis
      by simp
  qed
  show ?thesis
  proof (intro conjI impI)
    assume h: "\<not> IsZero v \<and> uuid_String p (UUID v) \<noteq> []
               \<and> uuid_Parse p (uuid_String p (UUID v)) = (UUID v, None)"
    from general [OF h] show "snd (ToProto p v) = None"
      and "FromProto p (fst (ToProto p v)) = (v, None)"
      and "String p (fst (FromProto p (fst (ToProto p v)))) = String p v"
      by simp_all
  next
    assume "\<not> IsZero v"
    with canonical_reads_back [of "UUID v"] general [of canonical]
    show "FromProto canonical (fst (ToProto canonical v)) = (v, None)"
      by simp
  next
    show "FromProto p None = (ValidatedUUID_zero, Some NilMessage)"
      by (simp add: FromProto_def)
  next
    assume "snd (uuid_Parse p ''invalid-uuid'') = Some e"
    then show "FromProto p (Some \<lparr>Val = ''invalid-uuid''\<rparr>)
               = (ValidatedUUID_zero, Some (MalformedText e))"
      by (simp add: FromProto_Some Parse_rejected)
  qed
qed

theorem message_round_trip_witness:
  "FromProto canonical (fst (ToProto canonical \<lparr>UUID = 0x550e8400e29b41d4a716446655440000\<rparr>))
     = (\<lparr>UUID = 0x550e8400e29b41d4a716446655440000\<rparr>, None)
   \<and> FromProto canonical (Some \<lparr>Val = ''invalid-uuid''\<rparr>)
       = (ValidatedUUID_zero, Some (MalformedText ''invalid UUID length''))"
proof -
  have h1: "\<not> IsZero \<lparr>UUID = 0x550e8400e29b41d4a716446655440000\<rparr>
            \<and> uuid_String canonical (UUID \<lparr>UUID = 0x550e8400e29b41d4a716446655440000\<rparr>) \<noteq> []
            \<and> uuid_Parse canonical
                 (uuid_String canonical (UUID \<lparr>UUID = 0x550e8400e29b41d4a716446655440000\<rparr>))
               = (UUID \<lparr>UUID = 0x550e8400e29b41d4a716446655440000\<rparr>, None)"
    by code_simp
  have h2: "snd (uuid_Parse canonical ''invalid-uuid'') = Some ''invalid UUID length''"
    by code_simp
  from h1 h2
    message_round_trip [of "\<lparr>UUID = 0x550e8400e29b41d4a716446655440000\<rparr>" canonical
      "''invalid UUID length''"]
  show ?thesis
    by blast
qed

text \<open>
  C7. Storage column. \<open>Value\<close> of an instance that is not zero is its text, as a string.
  \<open>Scan\<close> of a string, or of a byte sequence read as text, is decided by \<open>Parse\<close> of that
  text: the parsed value is stored, or the destination is kept and the error of \<open>Parse\<close>
  returned in the scan context. So \<open>Scan\<close> of what \<open>Value\<close> returned restores the
  instance, for an instance whose text the library writes non-empty and reads back as the
  same identifier; with the reference primitive this is so for every instance that is not
  zero. \<open>Scan\<close> of the nil interface fails, and \<open>Scan\<close> of a value of any other dynamic
  type fails with \<open>UnsupportedColumnType\<close>.
\<close>

theorem storage_column:
  "(\<not> IsZero u \<longrightarrow> Value p u = (VString (String p u), None))
   \<and> Scan p d (VString s)
       = (case Parse p s of
            (parsed, Some err) \<Rightarrow> (d, Some (During DatabaseScan err))
          | (parsed, None) \<Rightarrow> (parsed, None))
   \<and> Scan p d (VBytes s) = Scan p d (VString s)
   \<and> (\<not> IsZero u \<and> uuid_String p (UUID u) \<noteq> []
        \<and> uuid_Parse p (uuid_String p (UUID u)) = (UUID u, None)
       \<longrightarrow> Scan p d (fst (Value p u)) = (u, None))
   \<and> (\<not> IsZero u \<longrightarrow> Scan canonical d (fst (Value canonical u)) = (u, None))
   \<and> Scan p d VNil = (d, Some NilColumn)
   \<and> Scan p d (VOther t) = (d, Some (UnsupportedColumnType t))"
proof -
  have general: "Scan q d (fst (Value q u)) = (u, None)"
    if h: "\<not> IsZero u \<and> uuid_String q (UUID u) \<noteq> []
           \<and> uuid_Parse q (uuid_String q (UUID u)) = (UUID u, None)" for q
  proof -
    from h have nz: "UUID u \<noteq> uuid_Nil"
      by (simp add: IsZero_def)
    then have val: "fst (Value q u) = VString (uuid_String q (UUID u))"
      by (simp add: Value_def Validate_def)
    from h nz have "Parse q (uuid_String q (UUID u)) = (\<lparr>UUID = UUID u\<rparr>, None)"
      by (simp add: Parse_accepted)
    then show ?thesis
      by (simp add: val Scan_text)
  qed
  show ?thesis
  proof (intro conjI impI)
    assume "\<not> IsZero u"
    then show "Value p u = (VString (String p u), None)"
      by (simp add: Value_def Validate_def IsZero_def String_def)
  next
    show "Scan p d (VString s)
          = (case Parse p s of
               (parsed, Some err) \<Rightarrow> (d, Some (During DatabaseScan err))
             | (parsed, None) \<Rightarrow> (parsed, None))"
      by (simp add: Scan_text)
  next
    show "Scan p d (VBytes s) = Scan p d (VString s)"
      by (simp add: Scan_text)
  next
    assume "\<not> IsZero u \<and> uuid_String p (UUID u) \<noteq> []
            \<and> uuid_Parse p (uuid_String p (UUID u)) = (UUID u, None)"
    then show "Scan p d (fst (Value p u)) = (u, None)"
      by (rule general)
  next
    assume "\<not> IsZero u"
    with canonical_reads_back [of "UUID u"] general [of canonical]
    show "Scan canonical d (fst (Value canonical u)) = (u, None)"
      by simp
  next
    show "Scan p d VNil = (d, Some NilColumn)"
      by (simp add: Scan_def)
  next
    show "Scan p d (VOther t) = (d, Some (UnsupportedColumnType t))"
      by (simp add: Scan_def)
  qed
qed

theorem storage_column_witness:
  "Value canonical \<lparr>UUID = 0x550e8400e29b41d4a716446655440000\<rparr>
     = (VString ''550e8400-e29b-41d4-a716-446655440000'', None)
   \<and> Scan canonical ValidatedUUID_zero
        (fst (Value canonical \<lparr>UUID = 0x550e8400e29b41d4a716446655440000\<rparr>))
       = (\<lparr>UUID = 0x550e8400e29b41d4a716446655440000\<rparr>, None)"
proof -
  have h1: "\<not> IsZero \<lparr>UUID = 0x550e8400e29b41d4a716446655440000\<rparr>
            \<and> uuid_String canonical (UUID \<lparr>UUID = 0x550e8400e29b41d4a716446655440000\<rparr>) \<noteq> []
            \<and> uuid_Parse canonical
                 (uuid_String canonical (UUID \<lparr>UUID = 0x550e8400e29b41d4a716446655440000\<rparr>))
               = (UUID \<lparr>UUID = 0x550e8400e29b41d4a716446655440000\<rparr>, None)"
    by code_simp
  have h2: "String canonical \<lparr>UUID = 0x550e8400e29b41d4a716446655440000\<rparr>
            = ''550e8400-e29b-41d4-a716-446655440000''"
    by code_simp
  from h1
    storage_column [of "\<lparr>UUID = 0x550e8400e29b41d4a716446655440000\<rparr>" canonical
      ValidatedUUID_zero]
  have "Value canonical \<lparr>UUID = 0x550e8400e29b41d4a716446655440000\<rparr>
          = (VString (String canonical \<lparr>UUID = 0x550e8400e29b41d4a716446655440000\<rparr>), None)
        \<and> Scan canonical ValidatedUUID_zero
             (fst (Value canonical \<lparr>UUID = 0x550e8400e29b41d4a716446655440000\<rparr>))
            = (\<lparr>UUID = 0x550e8400e29b41d4a716446655440000\<rparr>, None)"
    by blast
  then show ?thesis
    unfolding h2 .
qed

text \<open>
  C8, as the claim is written, fails on the JSON literal \<^verbatim>\<open>null\<close>. It is a scalar and
  not a string, yet \<^verbatim>\<open>json.Unmarshal\<close> accepts it and leaves the string variable
  empty; \<open>UnmarshalJSON\<close> then calls \<open>Parse\<close> on the empty text, and the error returned is
  that of \<open>Parse\<close> in the unmarshalling context, not one of \<^verbatim>\<open>encoding/json\<close>.
\<close>

theorem UnmarshalJSON_null_reaches_Parse:
  "json_Unmarshal scalars ''null'' [] = ([], None)
   \<and> UnmarshalJSON scalars canonical ValidatedUUID_zero ''null''
       = (ValidatedUUID_zero, Some (During JSONUnmarshalling EmptyInput))"
  by code_simp

text \<open>
  C8, amended. \<open>UnmarshalJSON\<close> asks \<^verbatim>\<open>encoding/json\<close> for a string and hands that
  string to \<open>Parse\<close>. A text that is not well-formed JSON, and a boolean, a number, an
  array or an object, fail in \<^verbatim>\<open>encoding/json\<close>: its error is returned as it is,
  \<open>Parse\<close> is not reached and the destination is kept. A string scalar is handed to
  \<open>Parse\<close>, whose outcome decides. The literal \<^verbatim>\<open>null\<close> does not fail in
  \<^verbatim>\<open>encoding/json\<close>: \<open>Parse\<close> is reached with the empty text, and the call fails
  with \<open>EmptyInput\<close> in the unmarshalling context.
\<close>

theorem UnmarshalJSON_layers:
  "(json_scan n data = None
      \<longrightarrow> UnmarshalJSON n p d data = (d, Some (Notation SyntaxError)))
   \<and> (json_scan n data = Some v \<and> (v = JBool b \<or> v = JNumber x \<or> v = JArray \<or> v = JObject)
        \<longrightarrow> UnmarshalJSON n p d data
              = (d, Some (Notation (UnmarshalTypeError (json_kind v)))))
   \<and> (json_scan n data = Some (JString t)
        \<longrightarrow> UnmarshalJSON n p d data
              = (case Parse p t of
                   (parsed, Some err) \<Rightarrow> (d, Some (During JSONUnmarshalling err))
                 | (parsed, None) \<Rightarrow> (parsed, None)))
   \<and> (json_scan n data = Some JNull
        \<longrightarrow> UnmarshalJSON n p d data = (d, Some (During JSONUnmarshalling EmptyInput)))"
  by (auto simp: UnmarshalJSON_def json_Unmarshal_def Parse_empty)

theorem UnmarshalJSON_layers_witness:
  "UnmarshalJSON scalars canonical \<lparr>UUID = 7\<rparr> ''{'' = (\<lparr>UUID = 7\<rparr>, Some (Notation SyntaxError))
   \<and> UnmarshalJSON scalars canonical \<lparr>UUID = 7\<rparr> ''12''
       = (\<lparr>UUID = 7\<rparr>, Some (Notation (UnmarshalTypeError ''number'')))
   \<and> UnmarshalJSON scalars canonical \<lparr>UUID = 7\<rparr> (scalar_quote ''invalid-uuid'')
       = (\<lparr>UUID = 7\<rparr>, Some (During JSONUnmarshalling (MalformedText ''invalid UUID length'')))
   \<and> UnmarshalJSON scalars canonical \<lparr>UUID = 7\<rparr> ''null''
       = (\<lparr>UUID = 7\<rparr>, Some (During JSONUnmarshalling EmptyInput))"
proof -
  have h1: "json_scan scalars ''{'' = None"
    by code_simp
  have h2: "json_scan scalars ''12'' = Some (JNumber ''12'')
            \<and> (JNumber ''12'' = JBool True \<or> JNumber ''12'' = JNumber ''12''
                \<or> JNumber ''12'' = JArray \<or> JNumber ''12'' = JObject)"
    by code_simp
  have h3: "json_scan scalars (scalar_quote ''invalid-uuid'') = Some (JString ''invalid-uuid'')"
    by code_simp
  have h4: "json_scan scalars ''null'' = Some JNull"
    by code_simp
  have k: "json_kind (JNumber ''12'') = ''number''"
    by simp
  have q: "Parse canonical ''invalid-uuid''
           = (ValidatedUUID_zero, Some (MalformedText ''invalid UUID length''))"
    by code_simp
  from h1 UnmarshalJSON_layers [of scalars "''{''" canonical "\<lparr>UUID = 7\<rparr>"]
  have a: "UnmarshalJSON scalars canonical \<lparr>UUID = 7\<rparr> ''{''
           = (\<lparr>UUID = 7\<rparr>, Some (Notation SyntaxError))"
    by blast
  from h2 UnmarshalJSON_layers [of scalars "''12''" canonical "\<lparr>UUID = 7\<rparr>"
      "JNumber ''12''" True "''12''"]
  have b: "UnmarshalJSON scalars canonical \<lparr>UUID = 7\<rparr> ''12''
           = (\<lparr>UUID = 7\<rparr>, Some (Notation (UnmarshalTypeError ''number'')))"
    unfolding k by blast
  from h3 UnmarshalJSON_layers [of scalars "scalar_quote ''invalid-uuid''" canonical
      "\<lparr>UUID = 7\<rparr>" _ _ _ "''invalid-uuid''"]
  have c: "UnmarshalJSON scalars canonical \<lparr>UUID = 7\<rparr> (scalar_quote ''invalid-uuid'')
           = (\<lparr>UUID = 7\<rparr>, Some (During JSONUnmarshalling (MalformedText ''invalid UUID length'')))"
    unfolding q by simp
  from h4 UnmarshalJSON_layers [of scalars "''null''" canonical "\<lparr>UUID = 7\<rparr>"]
  have e: "UnmarshalJSON scalars canonical \<lparr>UUID = 7\<rparr> ''null''
           = (\<lparr>UUID = 7\<rparr>, Some (During JSONUnmarshalling EmptyInput))"
    by blast
  from a b c e show ?thesis
    by blast
qed

text \<open>
  C9. The helpers add nothing to \<open>Parse\<close>, \<open>ToProto\<close>, \<open>FromProto\<close> and \<open>String\<close>.
  \<open>StringToProto\<close> is \<open>Parse\<close> followed by \<open>ToProto\<close>, and its error is the error of
  \<open>Parse\<close>, since \<open>ToProto\<close> accepts whatever \<open>Parse\<close> returned. \<open>ValidateStringUUID\<close>
  returns the error of \<open>Parse\<close>. \<open>ProtoToString\<close> is \<open>FromProto\<close> followed by \<open>String\<close>.
  \<open>ValidateProtoUUID\<close> fails exactly when the reference is nil or \<open>Parse\<close> of the field
  fails, and returns the error of \<open>FromProto\<close>. None of the four alters what is passed
  in: the store of messages after the call is the store before it, so the message behind
  the reference, and every other message, holds what it held.
\<close>

theorem helpers_are_compositions:
  "fst (StringToProto p h s)
     = (case Parse p s of
          (validated, Some err) \<Rightarrow> (None, Some err)
        | (validated, None) \<Rightarrow> ToProto p validated)
   \<and> snd (fst (StringToProto p h s)) = snd (Parse p s)
   \<and> (fst (fst (StringToProto p h s)) \<noteq> None) = (snd (Parse p s) = None)
   \<and> fst (ValidateStringUUID p h s) = snd (Parse p s)
   \<and> (fst (ValidateStringUUID p h s) = None) = (snd (Parse p s) = None)
   \<and> fst (ProtoToString p h pb)
       = (case FromProto p (deref h pb) of
            (validated, Some err) \<Rightarrow> ([], Some err)
          | (validated, None) \<Rightarrow> (String p validated, None))
   \<and> snd (fst (ProtoToString p h pb)) = snd (FromProto p (deref h pb))
   \<and> (fst (ValidateProtoUUID p h pb) \<noteq> None)
       = (pb = None \<or> snd (Parse p (GetVal (deref h pb))) \<noteq> None)
   \<and> fst (ValidateProtoUUID p h pb) = snd (FromProto p (deref h pb))
   \<and> snd (StringToProto p h s) = h
   \<and> snd (ValidateStringUUID p h s) = h
   \<and> snd (ProtoToString p h pb) = h
   \<and> snd (ValidateProtoUUID p h pb) = h
   \<and> deref (snd (ProtoToString p h pb)) pb = deref h pb
   \<and> deref (snd (ValidateProtoUUID p h pb)) pb = deref h pb"
proof -
  have tp: "snd (ToProto p u) = None \<and> fst (ToProto p u) \<noteq> None" if "Parse p s = (u, None)" for u
    using Parse_returns_nonzero [OF that] by (simp add: ToProto_def Validate_def)
  have s1: "fst (StringToProto p h s)
            = (case Parse p s of
                 (validated, Some err) \<Rightarrow> (None, Some err)
               | (validated, None) \<Rightarrow> ToProto p validated)"
    by (cases "Parse p s"; cases "snd (Parse p s)") (auto simp: StringToProto_def)
  have s2: "snd (fst (StringToProto p h s)) = snd (Parse p s)"
    by (cases "Parse p s"; cases "snd (Parse p s)") (auto simp: StringToProto_def tp)
  have s3: "(fst (fst (StringToProto p h s)) \<noteq> None) = (snd (Parse p s) = None)"
    by (cases "Parse p s"; cases "snd (Parse p s)") (auto simp: StringToProto_def tp)
  have s4: "snd (StringToProto p h s) = h"
    by (cases "Parse p s"; cases "snd (Parse p s)") (auto simp: StringToProto_def)
  have v1: "fst (ValidateStringUUID p h s) = snd (Parse p s)"
    and v2: "snd (ValidateStringUUID p h s) = h"
    by (simp_all add: ValidateStringUUID_def)
  have p1: "fst (ProtoToString p h pb)
            = (case FromProto p (deref h pb) of
                 (validated, Some err) \<Rightarrow> ([], Some err)
               | (validated, None) \<Rightarrow> (String p validated, None))"
    by (cases "FromProto p (deref h pb)"; cases "snd (FromProto p (deref h pb))")
       (auto simp: ProtoToString_def)
  have p2: "snd (fst (ProtoToString p h pb)) = snd (FromProto p (deref h pb))"
    by (cases "FromProto p (deref h pb)"; cases "snd (FromProto p (deref h pb))")
       (auto simp: ProtoToString_def)
  have p3: "snd (ProtoToString p h pb) = h"
    by (cases "FromProto p (deref h pb)"; cases "snd (FromProto p (deref h pb))")
       (auto simp: ProtoToString_def)
  have w1: "(fst (ValidateProtoUUID p h pb) \<noteq> None)
            = (pb = None \<or> snd (Parse p (GetVal (deref h pb))) \<noteq> None)"
    by (cases pb) (simp_all add: ValidateProtoUUID_def)
  have w2: "fst (ValidateProtoUUID p h pb) = snd (FromProto p (deref h pb))"
    by (cases pb) (simp_all add: ValidateProtoUUID_def FromProto_def deref_def)
  have w3: "snd (ValidateProtoUUID p h pb) = h"
    by (simp add: ValidateProtoUUID_def)
  from s1 s2 s3 s4 v1 v2 p1 p2 p3 w1 w2 w3 show ?thesis
    by simp
qed

theorem helpers_are_compositions_witness:
  "fst (StringToProto canonical (\<lambda>a. \<lparr>Val = ''550e8400-e29b-41d4-a716-446655440000''\<rparr>)
          ''550e8400-e29b-41d4-a716-446655440000'')
     = (Some \<lparr>Val = ''550e8400-e29b-41d4-a716-446655440000''\<rparr>, None)
   \<and> snd (fst (StringToProto canonical (\<lambda>a. \<lparr>Val = ''invalid''\<rparr>) ''invalid''))
       = snd (Parse canonical ''invalid'')
   \<and> fst (ValidateStringUUID canonical (\<lambda>a. \<lparr>Val = ''550e8400-e29b-41d4-a716-446655440000''\<rparr>)
            ''550e8400-e29b-41d4-a716-446655440000'') = None
   \<and> fst (ValidateStringUUID canonical (\<lambda>a. \<lparr>Val = ''invalid''\<rparr>) ''invalid'') \<noteq> None
   \<and> fst (ProtoToString canonical (\<lambda>a. \<lparr>Val = ''550e8400-e29b-41d4-a716-446655440000''\<rparr>)
            (Some 0))
       = (''550e8400-e29b-41d4-a716-446655440000'', None)
   \<and> fst (ValidateProtoUUID canonical (\<lambda>a. \<lparr>Val = ''invalid''\<rparr>) None) \<noteq> None
   \<and> fst (ValidateProtoUUID canonical (\<lambda>a. \<lparr>Val = ''invalid''\<rparr>) (Some 0)) \<noteq> None
   \<and> fst (ValidateProtoUUID canonical
            (\<lambda>a. \<lparr>Val = ''550e8400-e29b-41d4-a716-446655440000''\<rparr>) (Some 0)) = None
   \<and> snd (ProtoToString canonical (\<lambda>a. \<lparr>Val = ''550e8400-e29b-41d4-a716-446655440000''\<rparr>)
            (Some 0))
       = (\<lambda>a. \<lparr>Val = ''550e8400-e29b-41d4-a716-446655440000''\<rparr>)
   \<and> deref (snd (ValidateProtoUUID canonical (\<lambda>a. \<lparr>Val = ''invalid''\<rparr>) (Some 0))) (Some 0)
       = Some \<lparr>Val = ''invalid''\<rparr>"
proof -
  have ok: "Parse canonical ''550e8400-e29b-41d4-a716-446655440000''
            = (\<lparr>UUID = 0x550e8400e29b41d4a716446655440000\<rparr>, None)"
    by code_simp
  have tp: "ToProto canonical \<lparr>UUID = 0x550e8400e29b41d4a716446655440000\<rparr>
            = (Some \<lparr>Val = ''550e8400-e29b-41d4-a716-446655440000''\<rparr>, None)"
    by code_simp
  have str: "String canonical \<lparr>UUID = 0x550e8400e29b41d4a716446655440000\<rparr>
             = ''550e8400-e29b-41d4-a716-446655440000''"
    by code_simp
  have bad: "snd (Parse canonical ''invalid'') = Some (MalformedText ''invalid UUID length'')"
    by code_simp
  note good = helpers_are_compositions [of canonical
      "\<lambda>a. \<lparr>Val = ''550e8400-e29b-41d4-a716-446655440000''\<rparr>"
      "''550e8400-e29b-41d4-a716-446655440000''" "Some 0"]
  note poor = helpers_are_compositions [of canonical "\<lambda>a. \<lparr>Val = ''invalid''\<rparr>"
      "''invalid''" "Some 0"]
  note none = helpers_are_compositions [of canonical "\<lambda>a. \<lparr>Val = ''invalid''\<rparr>"
      "''invalid''" None]
  from good ok tp
  have a: "fst (StringToProto canonical (\<lambda>a. \<lparr>Val = ''550e8400-e29b-41d4-a716-446655440000''\<rparr>)
                  ''550e8400-e29b-41d4-a716-446655440000'')
           = (Some \<lparr>Val = ''550e8400-e29b-41d4-a716-446655440000''\<rparr>, None)"
    by simp
  from poor
  have b: "snd (fst (StringToProto canonical (\<lambda>a. \<lparr>Val = ''invalid''\<rparr>) ''invalid''))
           = snd (Parse canonical ''invalid'')"
    by blast
  from good ok
  have c: "fst (ValidateStringUUID canonical
                  (\<lambda>a. \<lparr>Val = ''550e8400-e29b-41d4-a716-446655440000''\<rparr>)
                  ''550e8400-e29b-41d4-a716-446655440000'') = None"
    by simp
  from poor bad
  have d: "fst (ValidateStringUUID canonical (\<lambda>a. \<lparr>Val = ''invalid''\<rparr>) ''invalid'') \<noteq> None"
    by simp
  from good ok str
  have e: "fst (ProtoToString canonical
                  (\<lambda>a. \<lparr>Val = ''550e8400-e29b-41d4-a716-446655440000''\<rparr>) (Some 0))
           = (''550e8400-e29b-41d4-a716-446655440000'', None)"
    by (simp add: FromProto_Some deref_def)
  from none
  have f: "fst (ValidateProtoUUID canonical (\<lambda>a. \<lparr>Val = ''invalid''\<rparr>) None) \<noteq> None"
    by blast
  from poor bad
  have g: "fst (ValidateProtoUUID canonical (\<lambda>a. \<lparr>Val = ''invalid''\<rparr>) (Some 0)) \<noteq> None"
    by (simp add: FromProto_Some deref_def)
  from good ok
  have i: "fst (ValidateProtoUUID canonical
                  (\<lambda>a. \<lparr>Val = ''550e8400-e29b-41d4-a716-446655440000''\<rparr>) (Some 0)) = None"
    by (simp add: FromProto_Some deref_def)
  from good
  have j: "snd (ProtoToString canonical
                  (\<lambda>a. \<lparr>Val = ''550e8400-e29b-41d4-a716-446655440000''\<rparr>) (Some 0))
           = (\<lambda>a. \<lparr>Val = ''550e8400-e29b-41d4-a716-446655440000''\<rparr>)"
    by simp
  from poor
  have k: "deref (snd (ValidateProtoUUID canonical (\<lambda>a. \<lparr>Val = ''invalid''\<rparr>) (Some 0)))
             (Some 0) = Some \<lparr>Val = ''invalid''\<rparr>"
    by (simp add: deref_def)
  from a b c d e f g i j k show ?thesis
    by simp
qed

text \<open>
  C10. When \<open>Parse\<close>, \<open>FromGoogleUUID\<close>, \<open>FromProto\<close> or \<open>FromStringValue\<close> returns an
  error, the value returned beside it is the zero value of the struct, of which
  \<open>IsZero\<close> holds; in particular it is not the array the library returned beside its
  own error.
\<close>

theorem constructor_error_returns_zero:
  "(snd (Parse p s) \<noteq> None \<longrightarrow> fst (Parse p s) = ValidatedUUID_zero)
   \<and> (snd (FromGoogleUUID r) \<noteq> None \<longrightarrow> fst (FromGoogleUUID r) = ValidatedUUID_zero)
   \<and> (snd (FromProto p pb) \<noteq> None \<longrightarrow> fst (FromProto p pb) = ValidatedUUID_zero)
   \<and> (snd (FromStringValue p sv) \<noteq> None \<longrightarrow> fst (FromStringValue p sv) = ValidatedUUID_zero)
   \<and> IsZero ValidatedUUID_zero"
proof (intro conjI impI)
  assume "snd (Parse p s) \<noteq> None"
  then show "fst (Parse p s) = ValidatedUUID_zero"
    by (rule Parse_failure_zero)
next
  assume "snd (FromGoogleUUID r) \<noteq> None"
  then show "fst (FromGoogleUUID r) = ValidatedUUID_zero"
    by (simp add: FromGoogleUUID_def split: if_splits)
next
  assume "snd (FromProto p pb) \<noteq> None"
  then show "fst (FromProto p pb) = ValidatedUUID_zero"
    by (cases pb) (simp_all add: FromProto_def GetVal_def Parse_failure_zero)
next
  assume "snd (FromStringValue p sv) \<noteq> None"
  then show "fst (FromStringValue p sv) = ValidatedUUID_zero"
    by (cases sv) (simp_all add: FromStringValue_def Parse_failure_zero)
next
  show "IsZero ValidatedUUID_zero"
    by (rule IsZero_zero)
qed

theorem constructor_error_returns_zero_witness:
  "fst (Parse \<lparr>uuid_Parse = \<lambda>s. (255, Some ''invalid UUID format''),
               uuid_String = canonical_format\<rparr> ''550e8400-e29b-41d4-a716-44665544000g'')
     = ValidatedUUID_zero
   \<and> fst (FromGoogleUUID uuid_Nil) = ValidatedUUID_zero
   \<and> fst (FromProto canonical None) = ValidatedUUID_zero
   \<and> fst (FromStringValue canonical (Some \<lparr>Value_sv = []\<rparr>)) = ValidatedUUID_zero"
proof -
  have h1: "snd (Parse \<lparr>uuid_Parse = \<lambda>s. (255, Some ''invalid UUID format''),
                       uuid_String = canonical_format\<rparr>
                  ''550e8400-e29b-41d4-a716-44665544000g'') \<noteq> None"
    by (simp add: Parse_def)
  have h2: "snd (FromGoogleUUID uuid_Nil) \<noteq> None"
    by (simp add: FromGoogleUUID_def)
  have h3: "snd (FromProto canonical None) \<noteq> None"
    by (simp add: FromProto_def)
  have h4: "snd (FromStringValue canonical (Some \<lparr>Value_sv = []\<rparr>)) \<noteq> None"
    by (simp add: FromStringValue_def Parse_def)
  from h1 constructor_error_returns_zero
    [of "\<lparr>uuid_Parse = \<lambda>s. (255, Some ''invalid UUID format''),
         uuid_String = canonical_format\<rparr>" "''550e8400-e29b-41d4-a716-44665544000g''"]
  have a: "fst (Parse \<lparr>uuid_Parse = \<lambda>s. (255, Some ''invalid UUID format''),
                      uuid_String = canonical_format\<rparr>
                 ''550e8400-e29b-41d4-a716-44665544000g'') = ValidatedUUID_zero"
    by blast
  from h2 h3 h4 constructor_error_returns_zero
    [of canonical "[]" uuid_Nil None "Some \<lparr>Value_sv = []\<rparr>"]
  have b: "fst (FromGoogleUUID uuid_Nil) = ValidatedUUID_zero
           \<and> fst (FromProto canonical None) = ValidatedUUID_zero
           \<and> fst (FromStringValue canonical (Some \<lparr>Value_sv = []\<rparr>)) = ValidatedUUID_zero"
    by blast
  from a b show ?thesis
    by blast
qed

end
